theory Spec2Isabelle
  imports Main "HOL-Library.Sublist"
begin

section \<open>The Pandoc GUI server (server.js)\<close>

text \<open>
  The server accepts uploads, builds a command line for the external \<open>pandoc\<close> program,
  runs it, and sends back the converted file, or a ZIP archive for a batch. This theory
  embeds the functions of \<open>server.js\<close> that decide what the command line is, what a
  conversion returns, what the two conversion endpoints answer and which files they leave
  behind. JavaScript strings are modelled as \<open>string\<close>. The external program is a
  parameter of the model, and so is the value of \<open>Date.now()\<close>. A form field that is absent
  reads as \<open>undefined\<close>, which the code below treats exactly as it treats the string
  \<open>undefined\<close>, so the two format fields are plain strings.
\<close>

subsection \<open>Command Builder: \<open>buildPandocCommand\<close>\<close>

text \<open>
  The \<open>options\<close> object is read only through the truthiness of four of its properties
  (\<open>options.toc\<close>, \<open>options.numberSections\<close>, \<open>options.css\<close>,
  \<open>options.bibliography\<close>): each field of the record holds that truthiness.
\<close>

record options =
  toc :: bool
  numberSections :: bool
  css :: bool
  bibliography :: bool

text \<open>The object \<open>{}\<close>: every property is undefined, hence falsy.\<close>

definition emptyOptions :: options where
  "emptyOptions = \<lparr>toc = False, numberSections = False, css = False, bibliography = False\<rparr>"

text \<open>
  Lines 58 to 119. The template literal of line 59 puts the four strings into the text
  as they are; each later statement \<open>cmd += s\<close> under a condition appends \<open>s\<close> when the
  condition holds and nothing otherwise. \<open>Array.prototype.includes\<close> on an array of string
  literals is membership by string equality.
\<close>

definition buildPandocCommand :: "string \<Rightarrow> string \<Rightarrow> string \<Rightarrow> string \<Rightarrow> options \<Rightarrow> string" where
  "buildPandocCommand inputPath outputPath fromFormat toFormat opts =
    (let cmd = ''pandoc \"'' @ inputPath @ ''\" -f '' @ fromFormat @ '' -t '' @ toFormat
                 @ '' -o \"'' @ outputPath @ ''\"'';
         cmd = cmd @ (if toFormat \<in> set [''html'', ''docx'', ''odt'', ''epub'', ''pdf'']
                      then '' --standalone'' else []);
         cmd = cmd @ (if toc opts \<and> toFormat \<in> set [''html'', ''pdf'', ''docx'', ''epub'']
                      then '' --toc --toc-depth=6'' else []);
         cmd = cmd @ (if numberSections opts then '' --number-sections'' else []);
         cmd = cmd @ '' --preserve-tabs'';
         cmd = cmd @ (if fromFormat \<in> set [''docx'', ''odt'', ''epub'']
                      then '' --extract-media=./uploads/media'' else []);
         cmd = cmd @ (if toFormat = ''html''
                      then '' --self-contained --mathjax''
                           @ (if css opts then '' --css=style.css'' else [])
                      else []);
         cmd = cmd @ (if toFormat = ''pdf''
                      then '' --pdf-engine=pdflatex'' @ '' --variable=geometry:margin=1in''
                      else []);
         cmd = cmd @ (if toFormat = ''docx'' then '' --reference-doc=reference.docx'' else []);
         cmd = cmd @ '' --smart'';
         cmd = cmd @ '' --highlight-style=pygments'';
         cmd = cmd @ '' --wrap=preserve'';
         cmd = cmd @ (if bibliography opts then '' --citeproc'' else [])
     in cmd)"

text \<open>
  The text that \<open>buildPandocCommand\<close> appends after the closing quote of the output path,
  cut at its spaces: the list of the words appended, in order. It serves to reason about
  which flags a command holds; \<open>buildPandocCommand_words\<close> below proves that the command is
  the first line of the function followed by these words.
\<close>

definition appendedWords :: "string \<Rightarrow> string \<Rightarrow> options \<Rightarrow> string list" where
  "appendedWords fromFormat toFormat opts =
     (if toFormat \<in> set [''html'', ''docx'', ''odt'', ''epub'', ''pdf'']
      then [''--standalone''] else [])
     @ (if toc opts \<and> toFormat \<in> set [''html'', ''pdf'', ''docx'', ''epub'']
        then [''--toc'', ''--toc-depth=6''] else [])
     @ (if numberSections opts then [''--number-sections''] else [])
     @ [''--preserve-tabs'']
     @ (if fromFormat \<in> set [''docx'', ''odt'', ''epub'']
        then [''--extract-media=./uploads/media''] else [])
     @ (if toFormat = ''html''
        then [''--self-contained'', ''--mathjax'']
             @ (if css opts then [''--css=style.css''] else [])
        else [])
     @ (if toFormat = ''pdf''
        then [''--pdf-engine=pdflatex'', ''--variable=geometry:margin=1in''] else [])
     @ (if toFormat = ''docx'' then [''--reference-doc=reference.docx''] else [])
     @ [''--smart'', ''--highlight-style=pygments'', ''--wrap=preserve'']
     @ (if bibliography opts then [''--citeproc''] else [])"

text \<open>The words of a text, each written after one separator character.\<close>

definition spaced :: "char \<Rightarrow> string list \<Rightarrow> string" where
  "spaced c ws = concat (map ((#) c) ws)"

subsection \<open>Output extension: \<open>getOutputExtension\<close>\<close>

text \<open>
  Lines 319 to 337: \<open>extensions[format] || '.txt'\<close>. The table \<open>extensions\<close> is an object
  literal, so reading a property of it first looks at the fourteen own properties and then
  at the members that every such object inherits from \<open>Object.prototype\<close>
  (\<open>constructor\<close>, \<open>toString\<close>, ...). An inherited member is a function, or for
  \<open>__proto__\<close> the prototype object itself: never a string, and always truthy. A value read
  from the table is therefore one of two kinds.
\<close>

datatype jsvalue = JString string | JInherited string

definition extensions :: "(string \<times> string) list" where
  "extensions =
     [(''markdown'', ''.md''), (''html'', ''.html''), (''docx'', ''.docx''), (''odt'', ''.odt''),
      (''epub'', ''.epub''), (''pdf'', ''.pdf''), (''latex'', ''.tex''), (''rst'', ''.rst''),
      (''textile'', ''.textile''), (''org'', ''.org''), (''mediawiki'', ''.wiki''),
      (''rtf'', ''.rtf''), (''plain'', ''.txt''), (''json'', ''.json'')]"

text \<open>The property names of \<open>Object.prototype\<close> in Node.js.\<close>

definition objectPrototypeNames :: "string list" where
  "objectPrototypeNames =
     [''constructor'', ''__defineGetter__'', ''__defineSetter__'', ''hasOwnProperty'',
      ''__lookupGetter__'', ''__lookupSetter__'', ''isPrototypeOf'', ''propertyIsEnumerable'',
      ''toString'', ''valueOf'', ''__proto__'', ''toLocaleString'']"

text \<open>\<open>extensions[key]\<close>; \<open>None\<close> is \<open>undefined\<close>.\<close>

definition getProperty :: "string \<Rightarrow> jsvalue option" where
  "getProperty key =
     (case map_of extensions key of
        Some e \<Rightarrow> Some (JString e)
      | None \<Rightarrow> if key \<in> set objectPrototypeNames then Some (JInherited key) else None)"

definition truthy :: "jsvalue \<Rightarrow> bool" where
  "truthy v = (case v of JString s \<Rightarrow> s \<noteq> [] | JInherited n \<Rightarrow> True)"

definition getOutputExtension :: "string \<Rightarrow> jsvalue" where
  "getOutputExtension format =
     (case getProperty format of
        Some v \<Rightarrow> if truthy v then v else JString ''.txt''
      | None \<Rightarrow> JString ''.txt'')"

text \<open>
  The text a value gives inside a template literal: a string gives itself, a built-in
  function its source text, the prototype object \<open>[object Object]\<close>.
\<close>

definition toStr :: "jsvalue \<Rightarrow> string" where
  "toStr v =
     (case v of
        JString s \<Rightarrow> s
      | JInherited n \<Rightarrow>
          if n = ''__proto__'' then ''[object Object]''
          else if n = ''constructor'' then ''function Object() { [native code] }''
          else ''function '' @ n @ ''() { [native code] }'')"

subsection \<open>Numbers as text, and the helpers of Node's \<open>path\<close> module\<close>

text \<open>The decimal digits of a number, as a template literal writes \<open>Date.now()\<close>.\<close>

definition digit_char :: "nat \<Rightarrow> char" where
  "digit_char d = ''0123456789'' ! d"

function string_of_nat :: "nat \<Rightarrow> string" where
  "string_of_nat n =
     (if n < 10 then [digit_char n] else string_of_nat (n div 10) @ [digit_char (n mod 10)])"
  by pat_completeness auto
termination
  by (relation "measure id") auto

declare string_of_nat.simps [simp del]

text \<open>
  \<open>path.basename(p)\<close> on POSIX: trailing slashes are dropped, and the result is what follows
  the last remaining slash.
\<close>

definition path_basename :: "string \<Rightarrow> string" where
  "path_basename p = rev (takeWhile (\<lambda>c. c \<noteq> CHR ''/'') (dropWhile (\<lambda>c. c = CHR ''/'') (rev p)))"

text \<open>
  \<open>path.parse(p).name\<close> on POSIX: the base name without its extension. The extension starts
  at the last dot of the base name; there is none when the base name has no dot, when its
  only dot is its first character, or when it is \<open>..\<close>.
\<close>

definition path_parse_name :: "string \<Rightarrow> string" where
  "path_parse_name p =
     (let base = path_basename p;
          stem = rev (tl (dropWhile (\<lambda>c. c \<noteq> CHR ''.'') (rev base)))
      in if CHR ''.'' \<notin> set base \<or> stem = [] \<or> base = ''..'' then base else stem)"

text \<open>
  \<open>path.join(dir, name)\<close> on POSIX joins the two with a slash and normalises the result. The
  server calls it with the directory \<open>downloads\<close> and a file name that holds a hyphen and no
  slash (\<open>path_parse_name_no_slash\<close>, \<open>string_of_nat_no_slash\<close> and \<open>extension_no_slash\<close>
  below), so that there is nothing to normalise.
\<close>

definition path_join :: "string \<Rightarrow> string \<Rightarrow> string" where
  "path_join dir name = dir @ ''/'' @ name"

subsection \<open>Single Converter: \<open>convertFile\<close>\<close>

text \<open>
  What the callback of \<open>child_process.exec\<close> receives: \<open>error\<close> (absent when the program
  exits with status 0; otherwise its \<open>message\<close>) and the text the program wrote to its
  standard error.
\<close>

record exec_result =
  exec_error :: "string option"
  exec_stderr :: string

text \<open>
  The external program: given the command line and the files on disk, it returns what the
  callback receives and the files on disk afterwards.
\<close>

type_synonym engine = "string \<Rightarrow> string set \<Rightarrow> exec_result \<times> string set"

text \<open>The state a request runs in: the files on disk and the commands run so far.\<close>

record world =
  disk :: "string set"
  executed :: "string list"

text \<open>
  When the \<open>options\<close> field holds the JSON text \<open>null\<close>, the command builder throws at its
  first read of a property (line 67), inside the promise executor, and the promise is
  rejected with that error.
\<close>

definition nullOptionsMessage :: string where
  "nullOptionsMessage = ''Cannot read properties of null (reading 'toc')''"

text \<open>
  Lines 122 to 137. The result is \<open>Inl\<close> of the message of the error the promise is rejected
  with, or \<open>Inr\<close> of the path it resolves with. \<open>stderr || error.message\<close> is the standard
  error text unless that is empty.
\<close>

definition convertFile ::
  "engine \<Rightarrow> string \<Rightarrow> string \<Rightarrow> string \<Rightarrow> string \<Rightarrow> options option \<Rightarrow> world
     \<Rightarrow> (string + string) \<times> world" where
  "convertFile exec inputPath outputPath fromFormat toFormat parsedOptions w =
     (case parsedOptions of
        None \<Rightarrow> (Inl nullOptionsMessage, w)
      | Some opts \<Rightarrow>
          (let cmd = buildPandocCommand inputPath outputPath fromFormat toFormat opts;
               (r, d) = exec cmd (disk w);
               w' = \<lparr>disk = d, executed = executed w @ [cmd]\<rparr>
           in case exec_error r of
                Some message \<Rightarrow>
                  (Inl (''Conversion failed: ''
                          @ (if exec_stderr r \<noteq> [] then exec_stderr r else message)), w')
              | None \<Rightarrow> (Inr outputPath, w')))"

subsection \<open>Requests, responses and cleanup\<close>

text \<open>An uploaded file as multer hands it over: \<open>file.originalname\<close> and \<open>file.path\<close>.\<close>

record upload =
  originalname :: string
  path :: string

text \<open>
  The form field \<open>options\<close> and what \<open>options ? JSON.parse(options) : {}\<close> makes of it: the
  field is absent or empty; or \<open>JSON.parse\<close> throws, with a message; or it returns a value,
  \<open>null\<close> (\<open>None\<close>) or one whose four properties have the given truthiness.
\<close>

datatype options_field = Absent | Unparsable string | Parsed "options option"

record body =
  body_fromFormat :: string
  body_toFormat :: string
  body_options :: options_field

definition parseOptions :: "options_field \<Rightarrow> string + options option" where
  "parseOptions field =
     (case field of
        Absent \<Rightarrow> Inr (Some emptyOptions)
      | Unparsable message \<Rightarrow> Inl message
      | Parsed v \<Rightarrow> Inr v)"

text \<open>
  What a handler answers: \<open>res.status(n).json({error: message})\<close>, or
  \<open>res.download(path, filename)\<close>; for a batch the download carries the entries put into the
  archive with \<open>archive.file(path, {name})\<close>, in order.
\<close>

datatype response =
    Json nat string
  | Download string string
  | DownloadZip string string "(string \<times> string) list"

text \<open>
  A run of \<open>await fs.unlink(p)\<close> inside one \<open>try\<close>: unlinking a missing file throws, which
  skips the rest; the \<open>catch\<close> only logs.
\<close>

fun unlinkAll :: "string list \<Rightarrow> string set \<Rightarrow> string set" where
  "unlinkAll [] d = d"
| "unlinkAll (p # ps) d = (if p \<in> d then unlinkAll ps (d - {p}) else d)"

subsection \<open>Single file endpoint: \<open>POST /api/convert\<close>\<close>

text \<open>
  Lines 194 to 229. The files are unlinked in the callback of \<open>res.download\<close>, which only the
  path through a successful conversion reaches; the \<open>catch\<close> block answers 500 and returns.
\<close>

definition convert :: "engine \<Rightarrow> nat \<Rightarrow> upload option \<Rightarrow> body \<Rightarrow> world \<Rightarrow> response \<times> world" where
  "convert exec now file b w =
     (case file of
        None \<Rightarrow> (Json 400 ''No file uploaded'', w)
      | Some f \<Rightarrow>
          (case parseOptions (body_options b) of
             Inl message \<Rightarrow> (Json 500 message, w)
           | Inr parsedOptions \<Rightarrow>
               (let inputPath = path f;
                    outputFilename = path_parse_name (originalname f);
                    outputExt = getOutputExtension (body_toFormat b);
                    outputPath = path_join ''downloads''
                      (outputFilename @ ''-'' @ string_of_nat now @ toStr outputExt)
                in case convertFile exec inputPath outputPath (body_fromFormat b)
                          (body_toFormat b) parsedOptions w of
                     (Inl message, w') \<Rightarrow> (Json 500 message, w')
                   | (Inr p, w') \<Rightarrow>
                       (Download outputPath (outputFilename @ toStr outputExt),
                        w'\<lparr>disk := unlinkAll [inputPath, outputPath] (disk w')\<rparr>))))"

subsection \<open>Batch endpoint: \<open>POST /api/convert-batch\<close>\<close>

text \<open>
  An element of the array \<open>conversions\<close>: \<open>{original, converted, path, success: true}\<close> or
  \<open>{original, error, success: false}\<close>.
\<close>

datatype conversion =
    Succeeded (original: string) (converted: string) (convertedPath: string)
  | Failed (original: string) (error: string)

definition success :: "conversion \<Rightarrow> bool" where
  "success c = (case c of Succeeded _ _ _ \<Rightarrow> True | Failed _ _ \<Rightarrow> False)"

text \<open>Lines 247 to 249: the output path of one file of a batch.\<close>

definition batchOutputPath :: "nat \<Rightarrow> string \<Rightarrow> upload \<Rightarrow> string" where
  "batchOutputPath timestamp toFormat file =
     (let outputFilename = path_parse_name (originalname file);
          outputExt = getOutputExtension toFormat
      in path_join ''downloads''
           (outputFilename @ ''-'' @ string_of_nat timestamp @ toStr outputExt))"

text \<open>
  Lines 245 to 266, the loop over \<open>req.files\<close>: each conversion is awaited before the next
  file is taken, and a rejected one is caught and recorded.
\<close>

fun convertAll ::
  "engine \<Rightarrow> nat \<Rightarrow> string \<Rightarrow> string \<Rightarrow> options option \<Rightarrow> upload list \<Rightarrow> world
     \<Rightarrow> conversion list \<times> world" where
  "convertAll exec timestamp fromFormat toFormat parsedOptions [] w = ([], w)"
| "convertAll exec timestamp fromFormat toFormat parsedOptions (file # rest) w =
     (let inputPath = path file;
          outputPath = batchOutputPath timestamp toFormat file;
          (result, w') = convertFile exec inputPath outputPath fromFormat toFormat parsedOptions w;
          conv = (case result of
                    Inr p \<Rightarrow> Succeeded (originalname file) (path_basename outputPath) outputPath
                  | Inl message \<Rightarrow> Failed (originalname file) message);
          (convs, w'') = convertAll exec timestamp fromFormat toFormat parsedOptions rest w'
      in (conv # convs, w''))"

text \<open>
  Lines 304 to 308, the entries added to the archive, and lines 281 to 285, the converted
  files unlinked afterwards: both loops take the conversions with
  \<open>conv.success && conv.path\<close>, a path being truthy when it is not empty.
\<close>

fun archiveEntries :: "conversion list \<Rightarrow> (string \<times> string) list" where
  "archiveEntries [] = []"
| "archiveEntries (Succeeded orig name p # convs) =
     (if p \<noteq> [] then (p, name) # archiveEntries convs else archiveEntries convs)"
| "archiveEntries (Failed orig message # convs) = archiveEntries convs"

fun cleanupPaths :: "conversion list \<Rightarrow> string list" where
  "cleanupPaths [] = []"
| "cleanupPaths (Succeeded orig name p # convs) =
     (if p \<noteq> [] then p # cleanupPaths convs else cleanupPaths convs)"
| "cleanupPaths (Failed orig message # convs) = cleanupPaths convs"

text \<open>
  What the archive holds once \<open>archive.finalize()\<close> is done. The archiver library looks each
  queued file up on disk when it comes to write it; a file that is not there raises a
  \<open>warning\<close> event, for which the server registers no listener, and is left out of the
  archive.
\<close>

definition archiveContents :: "string set \<Rightarrow> (string \<times> string) list \<Rightarrow> (string \<times> string) list" where
  "archiveContents d entries = filter (\<lambda>(p, name). p \<in> d) entries"

text \<open>
  Lines 232 to 316. The archive file is created at \<open>zipPath\<close>, the entries are queued, the
  archive is finalized and sent, and then the uploads, the converted files and the archive
  are unlinked in one \<open>try\<close>. The download carries what the archive holds.
\<close>

definition convertBatch :: "engine \<Rightarrow> nat \<Rightarrow> upload list \<Rightarrow> body \<Rightarrow> world \<Rightarrow> response \<times> world" where
  "convertBatch exec now files b w =
     (if files = [] then (Json 400 ''No files uploaded'', w)
      else
        (case parseOptions (body_options b) of
           Inl message \<Rightarrow> (Json 500 message, w)
         | Inr parsedOptions \<Rightarrow>
             (let timestamp = now;
                  (conversions, w1) = convertAll exec timestamp (body_fromFormat b)
                                        (body_toFormat b) parsedOptions files w;
                  zipPath = path_join ''downloads''
                              (''converted-'' @ string_of_nat timestamp @ ''.zip'');
                  w2 = w1\<lparr>disk := insert zipPath (disk w1)\<rparr>;
                  entries = archiveContents (disk w2) (archiveEntries conversions);
                  w3 = w2\<lparr>disk := unlinkAll (map path files @ cleanupPaths conversions @ [zipPath])
                                      (disk w2)\<rparr>
              in (DownloadZip zipPath ''converted-documents.zip'' entries, w3))))"

subsection \<open>The engine alone, and numbers read back\<close>





subsection \<open>Sample requests and engines\<close>

text \<open>
  Concrete inputs on which the model is run below: a request body as the page sends it, an
  upload stored by multer under \<open>uploads/\<close>, an engine that always fails with a diagnostic
  and touches no file, and one that fails, without a diagnostic, exactly on the commands
  that hold a given text, and reports success on the others without writing any file.
\<close>

definition sampleBody :: body where
  "sampleBody = \<lparr>body_fromFormat = ''markdown'', body_toFormat = ''html'', body_options = Absent\<rparr>"

definition sampleUpload :: "string \<Rightarrow> upload" where
  "sampleUpload name = \<lparr>originalname = name, path = ''uploads/1-'' @ name\<rparr>"

definition engineFails :: engine where
  "engineFails cmd d =
     (\<lparr>exec_error = Some (''Command failed: '' @ cmd), exec_stderr = ''pandoc: bad input''\<rparr>, d)"





definition engineRejects :: "string \<Rightarrow> engine" where
  "engineRejects bad cmd d =
     (if sublist bad cmd
      then (\<lparr>exec_error = Some (''Command failed: '' @ cmd), exec_stderr = []\<rparr>, d)
      else (\<lparr>exec_error = None, exec_stderr = []\<rparr>, d))"

section \<open>Properties of the Command Builder\<close>

subsection \<open>Substrings of a text cut at separator characters\<close>

text \<open>
  A text \<open>f\<close> that does not hold the character \<open>c\<close> occurs in \<open>a @ c # b\<close> only inside
  \<open>a\<close> or inside \<open>b\<close>: an occurrence cannot run across the separator.
\<close>

lemma sublist_sep:
  assumes "c \<notin> set f"
  shows "sublist f (a @ c # b) \<longleftrightarrow> sublist f a \<or> sublist f b"
proof
  assume "sublist f (a @ c # b)"
  then obtain ps ss where eq: "a @ c # b = ps @ f @ ss"
    by (auto simp: sublist_def)
  then obtain us where "a = ps @ us \<and> us @ c # b = f @ ss \<or> a @ us = ps \<and> c # b = us @ f @ ss"
    by (auto simp: append_eq_append_conv2)
  then show "sublist f a \<or> sublist f b"
  proof (elim disjE conjE)
    assume a: "a = ps @ us" and r: "us @ c # b = f @ ss"
    from r obtain vs where "us = f @ vs \<and> vs @ c # b = ss \<or> us @ vs = f \<and> c # b = vs @ ss"
      by (auto simp: append_eq_append_conv2)
    then show ?thesis
    proof (elim disjE conjE)
      assume "us = f @ vs"
      with a have "sublist f a" by simp
      then show ?thesis ..
    next
      assume f: "us @ vs = f" and v: "c # b = vs @ ss"
      show ?thesis
      proof (cases vs)
        case Nil
        with f a have "sublist f a" by auto
        then show ?thesis ..
      next
        case (Cons v vs')
        with v f assms show ?thesis by auto
      qed
    qed
  next
    assume p: "a @ us = ps" and r: "c # b = us @ f @ ss"
    show ?thesis
    proof (cases us)
      case Nil
      with r assms show ?thesis
        by (cases f) (auto simp: sublist_def)
    next
      case (Cons u us')
      with r have "b = us' @ f @ ss" by simp
      then have "sublist f b" by simp
      then show ?thesis ..
    qed
  qed
next
  assume "sublist f a \<or> sublist f b"
  then show "sublist f (a @ c # b)"
  proof
    assume "sublist f a"
    then obtain ps ss where "a = ps @ f @ ss" by (auto simp: sublist_def)
    then have "a @ c # b = ps @ f @ (ss @ c # b)" by simp
    then show ?thesis unfolding sublist_def by blast
  next
    assume "sublist f b"
    then obtain ps ss where "b = ps @ f @ ss" by (auto simp: sublist_def)
    then have "a @ c # b = (a @ c # ps) @ f @ ss" by simp
    then show ?thesis unfolding sublist_def by blast
  qed
qed

lemma sublist_sep_Cons:
  assumes "c \<notin> set f" and "f \<noteq> []"
  shows "sublist f (c # b) \<longleftrightarrow> sublist f b"
  using sublist_sep [OF assms(1), of "[]" b] assms(2) by simp

lemma sublist_spaced:
  assumes "c \<notin> set f" and "f \<noteq> []"
  shows "sublist f (spaced c ws) \<longleftrightarrow> (\<exists>w\<in>set ws. sublist f w)"
proof (induction ws)
  case Nil
  from assms(2) show ?case by (simp add: spaced_def)
next
  case (Cons w ws)
  have "spaced c (w # ws) = c # w @ spaced c ws" by (simp add: spaced_def)
  moreover have "sublist f (w @ spaced c ws) \<longleftrightarrow> sublist f w \<or> sublist f (spaced c ws)"
  proof (cases ws)
    case Nil
    with assms(2) show ?thesis by (simp add: spaced_def)
  next
    case (Cons v vs)
    then have "spaced c ws = c # v @ spaced c vs" by (simp add: spaced_def)
    moreover have "sublist f (c # v @ spaced c vs) \<longleftrightarrow> sublist f (v @ spaced c vs)"
      by (rule sublist_sep_Cons [OF assms])
    ultimately show ?thesis using sublist_sep [OF assms(1), of w "v @ spaced c vs"] by simp
  qed
  ultimately show ?case using Cons.IH sublist_sep_Cons [OF assms, of "w @ spaced c ws"] by simp
qed

subsection \<open>The shape of a command\<close>

lemma buildPandocCommand_words:
  "buildPandocCommand ip op ff tf opts =
     ''pandoc'' @ CHR '' '' # CHR 0x22 # ip @ CHR 0x22 # CHR '' '' # ''-f'' @ CHR '' '' # ff
       @ CHR '' '' # ''-t'' @ CHR '' '' # tf @ CHR '' '' # ''-o'' @ CHR '' '' # CHR 0x22 # op
       @ CHR 0x22 # spaced (CHR '' '') (appendedWords ff tf opts)"
  by (simp add: buildPandocCommand_def appendedWords_def spaced_def)

lemma sublist_buildPandocCommand:
  assumes sp: "CHR '' '' \<notin> set f" and dq: "CHR 0x22 \<notin> set f" and ne: "f \<noteq> []"
  shows "sublist f (buildPandocCommand ip op ff tf opts) \<longleftrightarrow>
           sublist f ''pandoc'' \<or> sublist f ip \<or> sublist f ''-f'' \<or> sublist f ff
         \<or> sublist f ''-t'' \<or> sublist f tf \<or> sublist f ''-o'' \<or> sublist f op
         \<or> (\<exists>w\<in>set (appendedWords ff tf opts). sublist f w)"
  unfolding buildPandocCommand_words
  by (simp only: sublist_sep [OF sp] sublist_sep [OF dq] sublist_sep_Cons [OF sp ne]
        sublist_sep_Cons [OF dq ne] sublist_spaced [OF sp ne] disj_assoc)

lemma sublist_flag_iff:
  assumes "CHR '' '' \<notin> set f" and "CHR 0x22 \<notin> set f" and "f \<noteq> []"
    and "\<not> sublist f ''pandoc''" and "\<not> sublist f ''-f''" and "\<not> sublist f ''-t''"
    and "\<not> sublist f ''-o''"
  shows "sublist f (buildPandocCommand inputPath outputPath fromFormat toFormat opts) \<longleftrightarrow>
           (\<exists>w\<in>set (appendedWords fromFormat toFormat opts). sublist f w)
         \<or> sublist f inputPath \<or> sublist f outputPath \<or> sublist f fromFormat \<or> sublist f toFormat"
  using sublist_buildPandocCommand [OF assms(1-3), of inputPath outputPath fromFormat toFormat opts]
    assms(4-7) by blast

lemma bex_set_if: "(\<exists>w\<in>set (if c then xs else []). P w) \<longleftrightarrow> c \<and> (\<exists>w\<in>set xs. P w)"
  by (cases c) simp_all

lemma bex_set_append: "(\<exists>w\<in>set (xs @ ys). P w) \<longleftrightarrow> (\<exists>w\<in>set xs. P w) \<or> (\<exists>w\<in>set ys. P w)"
  by auto

lemma bex_set_Cons: "(\<exists>w\<in>set (x # xs). P w) \<longleftrightarrow> P x \<or> (\<exists>w\<in>set xs. P w)"
  by simp

lemma bex_set_Nil: "(\<exists>w\<in>set []. P w) \<longleftrightarrow> False"
  by simp

lemmas bex_words = bex_set_if bex_set_append bex_set_Cons bex_set_Nil

lemma standalone_words:
  "(\<exists>w\<in>set (appendedWords ff tf opts). sublist ''--standalone'' w) \<longleftrightarrow>
     tf \<in> set [''html'', ''docx'', ''odt'', ''epub'', ''pdf'']"
  unfolding appendedWords_def
  apply (simp only: bex_words)
  apply (simp add: sublist_Cons_right)
  done

lemma toc_words:
  "(\<exists>w\<in>set (appendedWords ff tf opts). sublist ''--toc'' w) \<longleftrightarrow>
     toc opts \<and> tf \<in> set [''html'', ''pdf'', ''docx'', ''epub'']"
  unfolding appendedWords_def
  apply (simp only: bex_words)
  apply (simp add: sublist_Cons_right)
  done

lemma depth_words:
  "(\<exists>w\<in>set (appendedWords ff tf opts). sublist ''--toc-depth=6'' w) \<longleftrightarrow>
     toc opts \<and> tf \<in> set [''html'', ''pdf'', ''docx'', ''epub'']"
  unfolding appendedWords_def
  apply (simp only: bex_words)
  apply (simp add: sublist_Cons_right)
  done

lemma media_words:
  "(\<exists>w\<in>set (appendedWords ff tf opts). sublist ''--extract-media=./uploads/media'' w) \<longleftrightarrow>
     ff \<in> set [''docx'', ''odt'', ''epub'']"
  unfolding appendedWords_def
  apply (simp only: bex_words)
  apply (simp add: sublist_Cons_right)
  done

subsection \<open>The format strings are interpolated as they are\<close>

text \<open>
  Claim C5. For every source-format and target-format string the builder returns a command,
  without checking the string against the format catalog: the command is the text
  \<open>pandoc "<input>" -f <from> -t <to> -o "<output>"\<close> with the two strings exactly as they
  were supplied, followed by the appended flags. In particular the command holds
  \<open>-f <from> -t <to> -o\<close> as a substring, whatever the two strings are.
\<close>

theorem buildPandocCommand_interpolates:
  "buildPandocCommand inputPath outputPath fromFormat toFormat opts =
     ''pandoc \"'' @ inputPath @ ''\" -f '' @ fromFormat @ '' -t '' @ toFormat @ '' -o \"''
       @ outputPath @ ''\"'' @ spaced (CHR '' '') (appendedWords fromFormat toFormat opts)
   \<and> sublist ('' -f '' @ fromFormat @ '' -t '' @ toFormat @ '' -o '')
        (buildPandocCommand inputPath outputPath fromFormat toFormat opts)"
proof
  show shape: "buildPandocCommand inputPath outputPath fromFormat toFormat opts =
     ''pandoc \"'' @ inputPath @ ''\" -f '' @ fromFormat @ '' -t '' @ toFormat @ '' -o \"''
       @ outputPath @ ''\"'' @ spaced (CHR '' '') (appendedWords fromFormat toFormat opts)"
    by (simp add: buildPandocCommand_words)
  have "buildPandocCommand inputPath outputPath fromFormat toFormat opts =
      (''pandoc \"'' @ inputPath @ [CHR 0x22]) @ ('' -f '' @ fromFormat @ '' -t '' @ toFormat @ '' -o '')
       @ (CHR 0x22 # outputPath @ ''\"'' @ spaced (CHR '' '') (appendedWords fromFormat toFormat opts))"
    by (simp add: buildPandocCommand_words)
  then show "sublist ('' -f '' @ fromFormat @ '' -t '' @ toFormat @ '' -o '')
        (buildPandocCommand inputPath outputPath fromFormat toFormat opts)"
    by (simp only: sublist_appendI)
qed

subsection \<open>The standalone flag\<close>

text \<open>
  Claim C3, as stated, fails. The claim is that for every input the command holds the
  standalone flag if and only if the target format is one of html, docx, odt, epub, pdf.
  A target format string that itself holds the flag text is put into the command as it
  is: with target format \<open>markdown --standalone\<close> the command holds \<open>--standalone\<close>,
  and the target format is none of the five.
\<close>

theorem standalone_flag_counterexample:
  "\<not> (sublist ''--standalone''
         (buildPandocCommand ''uploads/1-a.md'' ''downloads/a-2.txt'' ''markdown''
            ''markdown --standalone'' emptyOptions)
       \<longleftrightarrow> ''markdown --standalone'' \<in> set [''html'', ''docx'', ''odt'', ''epub'', ''pdf''])"
  by (simp add: buildPandocCommand_def emptyOptions_def sublist_Cons_right)

text \<open>
  Claim C3, amended. The command holds the text \<open>--standalone\<close> if and only if the
  target format is one of html, docx, odt, epub, pdf, or one of the four strings supplied
  by the caller (input path, output path, source format, target format) itself holds that
  text. For strings that do not hold it, as the names of the format catalog, this is the
  equivalence of the claim.
\<close>

theorem standalone_flag_iff:
  "sublist ''--standalone'' (buildPandocCommand inputPath outputPath fromFormat toFormat opts)
   \<longleftrightarrow> toFormat \<in> set [''html'', ''docx'', ''odt'', ''epub'', ''pdf'']
       \<or> sublist ''--standalone'' inputPath \<or> sublist ''--standalone'' outputPath
       \<or> sublist ''--standalone'' fromFormat \<or> sublist ''--standalone'' toFormat"
proof -
  have "sublist ''--standalone'' (buildPandocCommand inputPath outputPath fromFormat toFormat opts)
    \<longleftrightarrow> sublist ''--standalone'' ''pandoc'' \<or> sublist ''--standalone'' inputPath
       \<or> sublist ''--standalone'' ''-f'' \<or> sublist ''--standalone'' fromFormat
       \<or> sublist ''--standalone'' ''-t'' \<or> sublist ''--standalone'' toFormat
       \<or> sublist ''--standalone'' ''-o'' \<or> sublist ''--standalone'' outputPath
       \<or> (\<exists>w\<in>set (appendedWords fromFormat toFormat opts). sublist ''--standalone'' w)"
    by (rule sublist_buildPandocCommand) simp_all
  also have "\<dots> \<longleftrightarrow> sublist ''--standalone'' inputPath \<or> sublist ''--standalone'' fromFormat
       \<or> sublist ''--standalone'' toFormat \<or> sublist ''--standalone'' outputPath
       \<or> toFormat \<in> set [''html'', ''docx'', ''odt'', ''epub'', ''pdf'']"
    by (simp only: standalone_words) (simp add: sublist_Cons_right)
  finally show ?thesis by blast
qed

subsection \<open>The table-of-contents flag\<close>

text \<open>
  Claim C4, as stated, fails. The claim is that the command holds the table-of-contents
  flag with depth 6 if and only if the toc option is set and the target format is one of
  html, pdf, docx, epub, and never for the target markdown. With the option not set, the
  target \<open>markdown\<close> and the source format string \<open>markdown --toc --toc-depth=6\<close>, the
  command holds \<open>--toc --toc-depth=6\<close>.
\<close>

theorem toc_flag_counterexample:
  "\<not> (sublist ''--toc --toc-depth=6''
         (buildPandocCommand ''uploads/1-a.md'' ''downloads/a-2.md''
            ''markdown --toc --toc-depth=6'' ''markdown'' emptyOptions)
       \<longleftrightarrow> toc emptyOptions \<and> ''markdown'' \<in> set [''html'', ''pdf'', ''docx'', ''epub''])"
  by (simp add: buildPandocCommand_def emptyOptions_def sublist_Cons_right)

text \<open>
  Claim C4, amended. The command holds the text \<open>--toc\<close>, and likewise the text
  \<open>--toc-depth=6\<close>, if and only if the toc option is set and the target format is one of
  html, pdf, docx, epub, or one of the four strings supplied by the caller itself holds
  that text; and when the option is set and the target format is one of the four, the
  command holds \<open>--toc --toc-depth=6\<close>. So for caller strings that do not hold the text
  the flag never appears for the target markdown, even when the option is set.
\<close>

theorem toc_flag_iff:
  "(sublist ''--toc'' (buildPandocCommand inputPath outputPath fromFormat toFormat opts)
     \<longleftrightarrow> toc opts \<and> toFormat \<in> set [''html'', ''pdf'', ''docx'', ''epub'']
         \<or> sublist ''--toc'' inputPath \<or> sublist ''--toc'' outputPath
         \<or> sublist ''--toc'' fromFormat \<or> sublist ''--toc'' toFormat)
   \<and> (sublist ''--toc-depth=6'' (buildPandocCommand inputPath outputPath fromFormat toFormat opts)
     \<longleftrightarrow> toc opts \<and> toFormat \<in> set [''html'', ''pdf'', ''docx'', ''epub'']
         \<or> sublist ''--toc-depth=6'' inputPath \<or> sublist ''--toc-depth=6'' outputPath
         \<or> sublist ''--toc-depth=6'' fromFormat \<or> sublist ''--toc-depth=6'' toFormat)
   \<and> (toc opts \<and> toFormat \<in> set [''html'', ''pdf'', ''docx'', ''epub'']
        \<longrightarrow> sublist '' --toc --toc-depth=6''
              (buildPandocCommand inputPath outputPath fromFormat toFormat opts))"
proof (intro conjI impI)
  have "sublist ''--toc'' (buildPandocCommand inputPath outputPath fromFormat toFormat opts) \<longleftrightarrow>
           (\<exists>w\<in>set (appendedWords fromFormat toFormat opts). sublist ''--toc'' w)
         \<or> sublist ''--toc'' inputPath \<or> sublist ''--toc'' outputPath
         \<or> sublist ''--toc'' fromFormat \<or> sublist ''--toc'' toFormat"
    by (rule sublist_flag_iff) (simp_all add: sublist_Cons_right)
  then show "sublist ''--toc'' (buildPandocCommand inputPath outputPath fromFormat toFormat opts)
     \<longleftrightarrow> toc opts \<and> toFormat \<in> set [''html'', ''pdf'', ''docx'', ''epub'']
         \<or> sublist ''--toc'' inputPath \<or> sublist ''--toc'' outputPath
         \<or> sublist ''--toc'' fromFormat \<or> sublist ''--toc'' toFormat"
    by (simp only: toc_words)
next
  have "sublist ''--toc-depth=6'' (buildPandocCommand inputPath outputPath fromFormat toFormat opts) \<longleftrightarrow>
           (\<exists>w\<in>set (appendedWords fromFormat toFormat opts). sublist ''--toc-depth=6'' w)
         \<or> sublist ''--toc-depth=6'' inputPath \<or> sublist ''--toc-depth=6'' outputPath
         \<or> sublist ''--toc-depth=6'' fromFormat \<or> sublist ''--toc-depth=6'' toFormat"
    by (rule sublist_flag_iff) (simp_all add: sublist_Cons_right)
  then show "sublist ''--toc-depth=6'' (buildPandocCommand inputPath outputPath fromFormat toFormat opts)
     \<longleftrightarrow> toc opts \<and> toFormat \<in> set [''html'', ''pdf'', ''docx'', ''epub'']
         \<or> sublist ''--toc-depth=6'' inputPath \<or> sublist ''--toc-depth=6'' outputPath
         \<or> sublist ''--toc-depth=6'' fromFormat \<or> sublist ''--toc-depth=6'' toFormat"
    by (simp only: depth_words)
next
  assume c: "toc opts \<and> toFormat \<in> set [''html'', ''pdf'', ''docx'', ''epub'']"
  define before where "before =
     (if toFormat \<in> set [''html'', ''docx'', ''odt'', ''epub'', ''pdf'']
      then [''--standalone''] else [])"
  define after where "after =
     (if numberSections opts then [''--number-sections''] else [])
     @ [''--preserve-tabs'']
     @ (if fromFormat \<in> set [''docx'', ''odt'', ''epub'']
        then [''--extract-media=./uploads/media''] else [])
     @ (if toFormat = ''html''
        then [''--self-contained'', ''--mathjax'']
             @ (if css opts then [''--css=style.css''] else [])
        else [])
     @ (if toFormat = ''pdf''
        then [''--pdf-engine=pdflatex'', ''--variable=geometry:margin=1in''] else [])
     @ (if toFormat = ''docx'' then [''--reference-doc=reference.docx''] else [])
     @ [''--smart'', ''--highlight-style=pygments'', ''--wrap=preserve'']
     @ (if bibliography opts then [''--citeproc''] else [])"
  have "appendedWords fromFormat toFormat opts = before @ [''--toc'', ''--toc-depth=6''] @ after"
    unfolding appendedWords_def before_def after_def by (simp only: c if_True simp_thms)
  then have "spaced (CHR '' '') (appendedWords fromFormat toFormat opts)
      = spaced (CHR '' '') before @ '' --toc --toc-depth=6'' @ spaced (CHR '' '') after"
    by (simp add: spaced_def)
  then have "buildPandocCommand inputPath outputPath fromFormat toFormat opts
      = (''pandoc'' @ CHR '' '' # CHR 0x22 # inputPath @ CHR 0x22 # CHR '' '' # ''-f''
           @ CHR '' '' # fromFormat @ CHR '' '' # ''-t'' @ CHR '' '' # toFormat @ CHR '' '' # ''-o''
           @ CHR '' '' # CHR 0x22 # outputPath @ CHR 0x22 # spaced (CHR '' '') before)
        @ '' --toc --toc-depth=6'' @ spaced (CHR '' '') after"
    by (simp add: buildPandocCommand_words)
  then show "sublist '' --toc --toc-depth=6''
              (buildPandocCommand inputPath outputPath fromFormat toFormat opts)"
    by (simp only: sublist_appendI)
qed

text \<open>
  The theorem at two requests with the toc option set: for the target html the command
  holds the flag with its depth; for the target markdown it does not hold \<open>--toc\<close>.
\<close>

theorem toc_flag_iff_witness:
  "sublist '' --toc --toc-depth=6''
     (buildPandocCommand ''uploads/1-a.md'' ''downloads/a-2.html'' ''markdown'' ''html''
        \<lparr>toc = True, numberSections = False, css = False, bibliography = False\<rparr>)
   \<and> \<not> sublist ''--toc''
     (buildPandocCommand ''uploads/1-a.md'' ''downloads/a-2.md'' ''markdown'' ''markdown''
        \<lparr>toc = True, numberSections = False, css = False, bibliography = False\<rparr>)"
  using toc_flag_iff [of "''uploads/1-a.md''" "''downloads/a-2.html''" "''markdown''" "''html''"
      "\<lparr>toc = True, numberSections = False, css = False, bibliography = False\<rparr>"]
    toc_flag_iff [of "''uploads/1-a.md''" "''downloads/a-2.md''" "''markdown''" "''markdown''"
      "\<lparr>toc = True, numberSections = False, css = False, bibliography = False\<rparr>"]
  by (simp add: sublist_Cons_right)

subsection \<open>Media extraction\<close>

text \<open>
  Claim C6, as stated, fails. The claim is that the command requests media extraction
  into \<open>./uploads/media\<close> for the source formats docx, odt, epub and only for those. With
  the source format \<open>markdown\<close> and the target format string
  \<open>html --extract-media=./uploads/media\<close> the command holds the request.
\<close>

theorem extract_media_counterexample:
  "\<not> (sublist ''--extract-media=./uploads/media''
         (buildPandocCommand ''uploads/1-a.md'' ''downloads/a-2.txt'' ''markdown''
            ''html --extract-media=./uploads/media'' emptyOptions)
       \<longleftrightarrow> ''markdown'' \<in> set [''docx'', ''odt'', ''epub''])"
  by (simp add: buildPandocCommand_def emptyOptions_def sublist_Cons_right)

text \<open>
  Claim C6, amended. The command holds the text \<open>--extract-media=./uploads/media\<close> if and
  only if the source format is one of docx, odt, epub, or one of the four strings supplied
  by the caller itself holds that text.
\<close>

theorem extract_media_iff:
  "sublist ''--extract-media=./uploads/media''
     (buildPandocCommand inputPath outputPath fromFormat toFormat opts)
   \<longleftrightarrow> fromFormat \<in> set [''docx'', ''odt'', ''epub'']
       \<or> sublist ''--extract-media=./uploads/media'' inputPath
       \<or> sublist ''--extract-media=./uploads/media'' outputPath
       \<or> sublist ''--extract-media=./uploads/media'' fromFormat
       \<or> sublist ''--extract-media=./uploads/media'' toFormat"
proof -
  have "sublist ''--extract-media=./uploads/media''
          (buildPandocCommand inputPath outputPath fromFormat toFormat opts) \<longleftrightarrow>
           (\<exists>w\<in>set (appendedWords fromFormat toFormat opts).
               sublist ''--extract-media=./uploads/media'' w)
         \<or> sublist ''--extract-media=./uploads/media'' inputPath
         \<or> sublist ''--extract-media=./uploads/media'' outputPath
         \<or> sublist ''--extract-media=./uploads/media'' fromFormat
         \<or> sublist ''--extract-media=./uploads/media'' toFormat"
    by (rule sublist_flag_iff) (simp_all add: sublist_Cons_right)
  then show ?thesis by (simp only: media_words)
qed

section \<open>Properties of the output extension\<close>

lemma extensions_distinct: "distinct (map fst extensions)"
  by (simp add: extensions_def)

lemma extensions_nonempty: "\<forall>(k, v)\<in>set extensions. v \<noteq> []"
  by (simp add: extensions_def)

text \<open>
  For the fourteen formats of the catalog the function returns the extension of the
  table, and for every string that is neither one of them nor the name of a member of
  \<open>Object.prototype\<close> it returns \<open>.txt\<close>.
\<close>

lemma getOutputExtension_catalog:
  assumes "(format, e) \<in> set extensions"
  shows "getOutputExtension format = JString e"
proof -
  have "map_of extensions format = Some e"
    using extensions_distinct assms by (rule map_of_is_SomeI)
  moreover from extensions_nonempty assms have "e \<noteq> []" by blast
  ultimately show ?thesis
    by (simp add: getOutputExtension_def getProperty_def truthy_def)
qed

lemma getOutputExtension_fallback:
  assumes "format \<notin> fst ` set extensions" and "format \<notin> set objectPrototypeNames"
  shows "getOutputExtension format = JString ''.txt''"
proof -
  from assms(1) have "map_of extensions format = None"
    by (simp add: map_of_eq_None_iff)
  with assms(2) show ?thesis
    by (simp add: getOutputExtension_def getProperty_def)
qed

text \<open>
  Claim C10 says that \<open>getOutputExtension\<close> returns \<open>.txt\<close> for every string that is not
  one of the fourteen formats, so that a derived output path always ends in an extension.
  The code at the target format \<open>constructor\<close>: the string is not a format of the table, the
  lookup finds the inherited member \<open>Object.prototype.constructor\<close>, which is truthy, so
  the function returns that function instead of \<open>.txt\<close>, and the output path ends in its
  source text.
\<close>

theorem getOutputExtension_constructor:
  "''constructor'' \<notin> fst ` set extensions
   \<and> getOutputExtension ''constructor'' = JInherited ''constructor''
   \<and> getOutputExtension ''constructor'' \<noteq> JString ''.txt''
   \<and> toStr (getOutputExtension ''constructor'') = ''function Object() { [native code] }''"
  by (simp add: getOutputExtension_def getProperty_def truthy_def extensions_def
      objectPrototypeNames_def toStr_def)

lemma digit_char_no_slash: "d < 10 \<Longrightarrow> digit_char d \<noteq> CHR ''/''"
proof -
  assume "d < 10"
  then have "d \<in> {0, 1, 2, 3, 4, 5, 6, 7, 8, 9}" by auto
  then show ?thesis by (auto simp: digit_char_def)
qed

lemma string_of_nat_no_slash: "CHR ''/'' \<notin> set (string_of_nat n)"
proof (induction n rule: string_of_nat.induct)
  case (1 n)
  show ?case
  proof (cases "n < 10")
    case True
    with digit_char_no_slash [of n] show ?thesis
      by (auto simp: string_of_nat.simps [of n])
  next
    case False
    moreover have "digit_char (n mod 10) \<noteq> CHR ''/''" by (simp add: digit_char_no_slash)
    ultimately show ?thesis using "1.IH" by (auto simp: string_of_nat.simps [of n])
  qed
qed

lemma path_basename_no_slash: "CHR ''/'' \<notin> set (path_basename p)"
  by (auto simp: path_basename_def dest: set_takeWhileD)

lemma path_parse_name_no_slash: "CHR ''/'' \<notin> set (path_parse_name p)"
proof -
  have "set (rev (tl (dropWhile (\<lambda>c. c \<noteq> CHR ''.'') (rev (path_basename p))))) \<subseteq> set (path_basename p)"
  proof
    fix x assume "x \<in> set (rev (tl (dropWhile (\<lambda>c. c \<noteq> CHR ''.'') (rev (path_basename p)))))"
    then have "x \<in> set (tl (dropWhile (\<lambda>c. c \<noteq> CHR ''.'') (rev (path_basename p))))" by simp
    then have "x \<in> set (dropWhile (\<lambda>c. c \<noteq> CHR ''.'') (rev (path_basename p)))"
      by (cases "dropWhile (\<lambda>c. c \<noteq> CHR ''.'') (rev (path_basename p))") simp_all
    then have "x \<in> set (rev (path_basename p))" by (rule set_dropWhileD)
    then show "x \<in> set (path_basename p)" by simp
  qed
  with path_basename_no_slash [of p] show ?thesis
    by (auto simp: path_parse_name_def Let_def)
qed

lemma extension_no_slash: "CHR ''/'' \<notin> set (toStr (getOutputExtension format))"
proof (cases "map_of extensions format")
  case None
  show ?thesis
  proof (cases "format \<in> set objectPrototypeNames")
    case True
    then have "CHR ''/'' \<notin> set format" by (auto simp: objectPrototypeNames_def)
    with True None show ?thesis
      by (simp add: getOutputExtension_def getProperty_def truthy_def toStr_def)
  next
    case False
    with None show ?thesis
      by (simp add: getOutputExtension_def getProperty_def toStr_def)
  qed
next
  case (Some e)
  then have "(format, e) \<in> set extensions" by (rule map_of_SomeD)
  moreover have "\<forall>(k, v)\<in>set extensions. CHR ''/'' \<notin> set v \<and> v \<noteq> []"
    by (simp add: extensions_def)
  ultimately have "CHR ''/'' \<notin> set e \<and> e \<noteq> []" by blast
  with Some show ?thesis
    by (simp add: getOutputExtension_def getProperty_def truthy_def toStr_def)
qed

lemma path_basename_join:
  assumes "CHR ''/'' \<notin> set name" and "name \<noteq> []"
  shows "path_basename (path_join dir name) = name"
proof -
  from assms(2) obtain c cs where r: "rev name = c # cs" by (cases "rev name") auto
  with assms(1) have c: "c \<noteq> CHR ''/''" by (metis list.set_intros(1) set_rev)
  have "rev (path_join dir name) = rev name @ CHR ''/'' # rev dir"
    by (simp add: path_join_def)
  moreover have "dropWhile (\<lambda>c. c = CHR ''/'') (rev name @ CHR ''/'' # rev dir)
      = rev name @ CHR ''/'' # rev dir"
    using r c by simp
  moreover have "takeWhile (\<lambda>c. c \<noteq> CHR ''/'') (rev name @ CHR ''/'' # rev dir) = rev name"
    using assms(1) by (subst takeWhile_append2) auto
  ultimately show ?thesis by (simp add: path_basename_def)
qed

section \<open>Properties of the Single Converter\<close>

lemma convertFile_executed:
  "executed (snd (convertFile exec ip op ff tf (Some opts) w)) =
     executed w @ [buildPandocCommand ip op ff tf opts]"
  by (simp add: convertFile_def Let_def split: prod.splits option.splits)

lemma convertFile_null:
  "convertFile exec ip op ff tf None w = (Inl nullOptionsMessage, w)"
  by (simp add: convertFile_def)

text \<open>
  Claim C8. When the engine reports an error (a nonzero exit), \<open>convertFile\<close> fails with
  the message \<open>Conversion failed:\<close> followed by the text of the engine's standard error
  when that text is not empty, and by the message of the error otherwise. When the engine
  reports no error, \<open>convertFile\<close> returns the output path, whatever files the engine left
  on disk: the existence of the output file is not checked.
\<close>

theorem convertFile_result:
  assumes "exec (buildPandocCommand inputPath outputPath fromFormat toFormat opts) (disk w) = (r, d)"
  shows "(exec_error r = Some message \<and> exec_stderr r \<noteq> [] \<longrightarrow>
            fst (convertFile exec inputPath outputPath fromFormat toFormat (Some opts) w)
              = Inl (''Conversion failed: '' @ exec_stderr r))
       \<and> (exec_error r = Some message \<and> exec_stderr r = [] \<longrightarrow>
            fst (convertFile exec inputPath outputPath fromFormat toFormat (Some opts) w)
              = Inl (''Conversion failed: '' @ message))
       \<and> (exec_error r = None \<longrightarrow>
            fst (convertFile exec inputPath outputPath fromFormat toFormat (Some opts) w)
              = Inr outputPath)"
  using assms by (simp add: convertFile_def Let_def)

text \<open>
  The theorem at three runs: an engine that fails with a diagnostic, one that fails
  without, and one that succeeds without writing the output file.
\<close>

theorem convertFile_result_witness:
  "fst (convertFile engineFails ''uploads/1-a.md'' ''downloads/a-2.html'' ''markdown'' ''html''
          (Some emptyOptions) \<lparr>disk = {''uploads/1-a.md''}, executed = []\<rparr>)
     = Inl ''Conversion failed: pandoc: bad input''
   \<and> fst (convertFile (engineRejects ''1-a.md'') ''uploads/1-a.md'' ''downloads/a-2.html''
            ''markdown'' ''plain'' (Some emptyOptions) \<lparr>disk = {''uploads/1-a.md''}, executed = []\<rparr>)
     = Inl (''Conversion failed: Command failed: ''
            @ buildPandocCommand ''uploads/1-a.md'' ''downloads/a-2.html'' ''markdown'' ''plain''
                emptyOptions)
   \<and> fst (convertFile (engineRejects ''zzz'') ''uploads/1-a.md'' ''downloads/a-2.html''
            ''markdown'' ''plain'' (Some emptyOptions) \<lparr>disk = {''uploads/1-a.md''}, executed = []\<rparr>)
     = Inr ''downloads/a-2.html''
   \<and> ''downloads/a-2.html'' \<notin> disk (snd (convertFile (engineRejects ''zzz'') ''uploads/1-a.md''
            ''downloads/a-2.html'' ''markdown'' ''plain'' (Some emptyOptions)
            \<lparr>disk = {''uploads/1-a.md''}, executed = []\<rparr>))"
proof -
  let ?w = "\<lparr>disk = {''uploads/1-a.md''}, executed = []\<rparr>"
  let ?c = "buildPandocCommand ''uploads/1-a.md'' ''downloads/a-2.html'' ''markdown''"
  have bad: "sublist ''1-a.md'' (?c ''plain'' emptyOptions)"
    by (simp add: buildPandocCommand_def emptyOptions_def sublist_Cons_right)
  have good: "\<not> sublist ''zzz'' (?c ''plain'' emptyOptions)"
    by (simp add: buildPandocCommand_def emptyOptions_def sublist_Cons_right)
  have 1: "engineFails (?c ''html'' emptyOptions) (disk ?w)
      = (\<lparr>exec_error = Some (''Command failed: '' @ ?c ''html'' emptyOptions),
          exec_stderr = ''pandoc: bad input''\<rparr>, disk ?w)"
    by (simp add: engineFails_def)
  have 2: "engineRejects ''1-a.md'' (?c ''plain'' emptyOptions) (disk ?w)
      = (\<lparr>exec_error = Some (''Command failed: '' @ ?c ''plain'' emptyOptions),
          exec_stderr = []\<rparr>, disk ?w)"
    using bad by (simp add: engineRejects_def)
  have 3: "engineRejects ''zzz'' (?c ''plain'' emptyOptions) (disk ?w)
      = (\<lparr>exec_error = None, exec_stderr = []\<rparr>, disk ?w)"
    using good by (simp add: engineRejects_def)
  have 4: "snd (convertFile (engineRejects ''zzz'') ''uploads/1-a.md''
            ''downloads/a-2.html'' ''markdown'' ''plain'' (Some emptyOptions) ?w)
       = \<lparr>disk = {''uploads/1-a.md''}, executed = [?c ''plain'' emptyOptions]\<rparr>"
    using 3 by (simp add: convertFile_def Let_def)
  note a = convertFile_result [of engineFails "''uploads/1-a.md''" "''downloads/a-2.html''"
      "''markdown''" "''html''" emptyOptions ?w _ _ "''Command failed: '' @ ?c ''html'' emptyOptions", OF 1]
  note b = convertFile_result [of "engineRejects ''1-a.md''" "''uploads/1-a.md''"
      "''downloads/a-2.html''" "''markdown''" "''plain''" emptyOptions ?w _ _
      "''Command failed: '' @ ?c ''plain'' emptyOptions", OF 2]
  note c = convertFile_result [of "engineRejects ''zzz''" "''uploads/1-a.md''"
      "''downloads/a-2.html''" "''markdown''" "''plain''" emptyOptions ?w _ _ "[]", OF 3]
  from a have "fst (convertFile engineFails ''uploads/1-a.md'' ''downloads/a-2.html'' ''markdown''
      ''html'' (Some emptyOptions) ?w) = Inl ''Conversion failed: pandoc: bad input''"
    by simp
  moreover from b have "fst (convertFile (engineRejects ''1-a.md'') ''uploads/1-a.md''
      ''downloads/a-2.html'' ''markdown'' ''plain'' (Some emptyOptions) ?w)
     = Inl (''Conversion failed: Command failed: '' @ ?c ''plain'' emptyOptions)"
    by simp
  moreover from c have "fst (convertFile (engineRejects ''zzz'') ''uploads/1-a.md''
      ''downloads/a-2.html'' ''markdown'' ''plain'' (Some emptyOptions) ?w) = Inr ''downloads/a-2.html''"
    by simp
  moreover from 4 have "''downloads/a-2.html'' \<notin> disk (snd (convertFile (engineRejects ''zzz'')
      ''uploads/1-a.md'' ''downloads/a-2.html'' ''markdown'' ''plain'' (Some emptyOptions) ?w))"
    by simp
  ultimately show ?thesis by blast
qed

section \<open>Properties of the endpoints\<close>

subsection \<open>The sample requests\<close>

lemma sample_fields:
  "originalname (sampleUpload name) = name"
  "path (sampleUpload name) = ''uploads/1-'' @ name"
  by (simp_all add: sampleUpload_def)



subsection \<open>Empty uploads\<close>

text \<open>
  Claim C9. A single-file request without a file and a batch request without files are
  answered at once with status 400 and a JSON error body; the state is unchanged, so no
  command was run and no file was touched.
\<close>

theorem empty_upload_rejected:
  "convert exec now None b w = (Json 400 ''No file uploaded'', w)
   \<and> convertBatch exec now [] b w = (Json 400 ''No files uploaded'', w)"
  by (simp add: convert_def convertBatch_def)

subsection \<open>Temporary files of a single-file request\<close>

text \<open>
  On the path through a successful conversion the upload and the output are unlinked
  (when the engine left both on disk); on the path through a failed conversion the
  handler answers 500 in the state the conversion left, and unlinks nothing.
\<close>

lemma convert_success:
  assumes "parseOptions (body_options b) = Inr parsedOptions"
    and "convertFile exec (path u)
           (path_join ''downloads'' (path_parse_name (originalname u) @ ''-'' @ string_of_nat now
              @ toStr (getOutputExtension (body_toFormat b))))
           (body_fromFormat b) (body_toFormat b) parsedOptions w = (Inr p, w')"
    and "path u \<in> disk w'" and "p \<in> disk w'"
  shows "path u \<notin> disk (snd (convert exec now (Some u) b w))
       \<and> p \<notin> disk (snd (convert exec now (Some u) b w))"
proof -
  from assms(2) have p: "p = path_join ''downloads'' (path_parse_name (originalname u) @ ''-''
      @ string_of_nat now @ toStr (getOutputExtension (body_toFormat b)))"
    by (cases parsedOptions)
      (auto simp: convertFile_def Let_def split: prod.splits option.splits)
  with assms show ?thesis
    by (simp add: convert_def Let_def)
qed

lemma convert_failure:
  assumes "parseOptions (body_options b) = Inr parsedOptions"
    and "convertFile exec (path u)
           (path_join ''downloads'' (path_parse_name (originalname u) @ ''-'' @ string_of_nat now
              @ toStr (getOutputExtension (body_toFormat b))))
           (body_fromFormat b) (body_toFormat b) parsedOptions w = (Inl message, w')"
  shows "convert exec now (Some u) b w = (Json 500 message, w')"
  using assms by (simp add: convert_def Let_def)

text \<open>
  Claim C2 says that after a single-file request, successful or not, no file of the request
  remains in the upload or output directories. The code at a request whose conversion
  fails: the upload \<open>uploads/1-a.md\<close> is on disk before the request, the engine exits with
  an error, the handler answers 500, and the upload is still on disk afterwards.
\<close>

theorem convert_failure_keeps_upload:
  "convert engineFails 2 (Some (sampleUpload ''a.md'')) sampleBody
      \<lparr>disk = {''uploads/1-a.md''}, executed = []\<rparr>
     = (Json 500 ''Conversion failed: pandoc: bad input'',
        \<lparr>disk = {''uploads/1-a.md''},
         executed = [buildPandocCommand ''uploads/1-a.md'' ''downloads/a-2.html'' ''markdown''
                       ''html'' emptyOptions]\<rparr>)"
proof -
  have parsed: "parseOptions (body_options sampleBody) = Inr (Some emptyOptions)"
    by (simp add: parseOptions_def sampleBody_def)
  have out: "path_join ''downloads'' (path_parse_name (originalname (sampleUpload ''a.md'')) @ ''-''
      @ string_of_nat 2 @ toStr (getOutputExtension (body_toFormat sampleBody)))
      = ''downloads/a-2.html''"
    by (simp add: path_join_def path_parse_name_def path_basename_def getOutputExtension_def
        getProperty_def extensions_def truthy_def toStr_def string_of_nat.simps digit_char_def
        sample_fields sampleBody_def Let_def)
  have "convertFile engineFails (path (sampleUpload ''a.md'')) ''downloads/a-2.html''
          (body_fromFormat sampleBody) (body_toFormat sampleBody) (Some emptyOptions)
          \<lparr>disk = {''uploads/1-a.md''}, executed = []\<rparr>
      = (Inl ''Conversion failed: pandoc: bad input'',
         \<lparr>disk = {''uploads/1-a.md''},
          executed = [buildPandocCommand ''uploads/1-a.md'' ''downloads/a-2.html'' ''markdown''
                       ''html'' emptyOptions]\<rparr>)"
    by (simp add: convertFile_def Let_def engineFails_def sample_fields sampleBody_def)
  with parsed out show ?thesis
    by (intro convert_failure) simp_all
qed

subsection \<open>The batch loop\<close>

lemma convertAll_executed:
  "executed (snd (convertAll exec ts ff tf (Some opts) files w)) =
     executed w @ map (\<lambda>u. buildPandocCommand (path u) (batchOutputPath ts tf u) ff tf opts) files"
proof (induction files arbitrary: w)
  case Nil
  show ?case by simp
next
  case (Cons u rest)
  obtain result w' where cf: "convertFile exec (path u) (batchOutputPath ts tf u) ff tf (Some opts) w
      = (result, w')"
    by (cases "convertFile exec (path u) (batchOutputPath ts tf u) ff tf (Some opts) w")
  have "executed w' = executed w @ [buildPandocCommand (path u) (batchOutputPath ts tf u) ff tf opts]"
    using convertFile_executed [of exec "path u" "batchOutputPath ts tf u" ff tf opts w] cf
    by simp
  moreover obtain convs w'' where ca: "convertAll exec ts ff tf (Some opts) rest w' = (convs, w'')"
    by (cases "convertAll exec ts ff tf (Some opts) rest w'")
  ultimately show ?case
    using cf Cons.IH [of w'] by (simp add: Let_def)
qed

lemma convertAll_null:
  "convertAll exec ts ff tf None files w =
     (map (\<lambda>u. Failed (originalname u) nullOptionsMessage) files, w)"
  by (induction files) (simp_all add: convertFile_null)

lemma batchOutputPath_nonempty: "batchOutputPath ts tf u \<noteq> []"
  by (simp add: batchOutputPath_def path_join_def Let_def)

text \<open>
  The name of an archive entry is the file name part of the output path: base name,
  timestamp and extension.
\<close>

lemma batch_entry_name:
  "path_basename (batchOutputPath timestamp toFormat u) =
     path_parse_name (originalname u) @ ''-'' @ string_of_nat timestamp
       @ toStr (getOutputExtension toFormat)"
  unfolding batchOutputPath_def Let_def
  by (rule path_basename_join)
    (simp_all add: path_parse_name_no_slash string_of_nat_no_slash extension_no_slash)

subsection \<open>The loop against the engine alone\<close>





subsection \<open>Runs of the sample batches\<close>









subsection \<open>The output path of a file of a batch\<close>



subsection \<open>The archive of a batch\<close>




end
